theory Spec2Isabelle
  imports
    Main
    "HOL-Library.Multiset"
    "HOL-Library.Char_ord"
    "HOL-Library.List_Lexorder"
    "HOL-Library.Option_ord"
    "HOL-Library.Product_Lexorder"
begin

section \<open>The food waste management data layer (app.py)\<close>

text \<open>
  app.py keeps its data in an SQLite database with four tables and talks to it through
  SQL statements. The embedding below gives each statement of the source the meaning the
  engine gives it under the schema of \<open>setup_database\<close> and the pragma of
  \<open>get_db_connection\<close> (\<open>PRAGMA foreign_keys = ON\<close>): a table is the list of its rows
  in rowid order together with its \<open>sqlite_sequence\<close> entry, a column value is
  \<open>None\<close> (or \<open>NULL\<close>) for NULL, and every exception a call can raise is a value of
  \<open>error\<close>.

  Column values are typed by the declared column: TEXT columns hold \<open>string option\<close>,
  INTEGER columns \<open>int option\<close>, the DATE and DATETIME columns a \<open>sql_value\<close>. REAL and BLOB
  values are outside the model.
\<close>

subsection \<open>Errors\<close>

datatype error =
    OverflowError      \<comment> \<open>sqlite3: Python int too large to convert to SQLite INTEGER\<close>
  | IntegrityError     \<comment> \<open>FOREIGN KEY constraint failed, UNIQUE constraint failed\<close>
  | OperationalError   \<comment> \<open>database or disk is full (the rowids are used up)\<close>
  | DatabaseError      \<comment> \<open>pandas: execution of a query failed\<close>
  | TypeError          \<comment> \<open>int(None)\<close>
  | ParserError        \<comment> \<open>pandas: a CSV file that cannot be read or does not fit its table\<close>

subsection \<open>Rows, tables, the store\<close>

text \<open>
  The \<open>DATE\<close> and \<open>DATETIME\<close> columns have NUMERIC affinity, so they hold values of more
  than one storage class: NULL, an integer or a text.
\<close>

datatype sql_value =
    NULL
  | INTEGER int
  | TEXT string

record provider =
  p_Name :: "string option"
  p_Type :: "string option"
  p_Address :: "string option"
  p_City :: "string option"
  p_Contact :: "string option"

record receiver =
  r_Name :: "string option"
  r_Type :: "string option"
  r_City :: "string option"
  r_Contact :: "string option"

record food_listing =
  Food_Name :: "string option"
  Quantity :: "int option"
  Expiry_Date :: sql_value
  Provider_ID :: "int option"
  Provider_Type :: "string option"
  Location :: "string option"
  Food_Type :: "string option"
  Meal_Type :: "string option"

record claim =
  c_Food_ID :: "int option"
  c_Receiver_ID :: "int option"
  Status :: "string option"
  Timestamp :: sql_value

text \<open>
  Every table has an \<open>INTEGER PRIMARY KEY AUTOINCREMENT\<close> column: the rowid. A row is the
  pair of its rowid and its other columns; \<open>sqlite_sequence\<close> is the largest rowid the
  table ever held, as the engine records it for an AUTOINCREMENT table.
\<close>

record 'a table =
  rows :: "(int \<times> 'a) list"
  sqlite_sequence :: int

record store =
  Providers :: "provider table"
  Receivers :: "receiver table"
  Food_Listings :: "food_listing table"
  Claims :: "claim table"

definition empty_table :: "'a table" where
  "empty_table = \<lparr>rows = [], sqlite_sequence = 0\<rparr>"

definition empty_store :: store where
  "empty_store =
     \<lparr>Providers = empty_table, Receivers = empty_table,
      Food_Listings = empty_table, Claims = empty_table\<rparr>"

definition rowids :: "'a table \<Rightarrow> int list" where
  "rowids t = map fst (rows t)"

subsection \<open>Binding Python values to statement parameters\<close>

definition MAX_ROWID :: int where
  "MAX_ROWID = 9223372036854775807"

definition int64 :: "int \<Rightarrow> bool" where
  "int64 n \<longleftrightarrow> - MAX_ROWID - 1 \<le> n \<and> n \<le> MAX_ROWID"

text \<open>A Python int is unbounded; binding one that does not fit 64 bits raises.\<close>

definition bind_int :: "int \<Rightarrow> error + int" where
  "bind_int n = (if int64 n then Inr n else Inl OverflowError)"

definition bind_int_opt :: "int option \<Rightarrow> error + int option" where
  "bind_int_opt v =
     (case v of
        None \<Rightarrow> Inr None
      | Some n \<Rightarrow> (case bind_int n of Inl e \<Rightarrow> Inl e | Inr m \<Rightarrow> Inr (Some m)))"

text \<open>
  \<open>datetime.date\<close>, as \<open>st.date_input\<close> returns it: its year is between 1 and 9999, its
  month and day are in the calendar's range (\<open>valid_date\<close> below; the length of the month
  plays no part here). The sqlite3 module binds a date as its \<open>isoformat()\<close>:
  \<open>%04d-%02d-%02d\<close>.
\<close>

record date =
  year :: nat
  month :: nat
  day :: nat

definition valid_date :: "date \<Rightarrow> bool" where
  "valid_date d \<longleftrightarrow>
     1 \<le> year d \<and> year d \<le> 9999 \<and> 1 \<le> month d \<and> month d \<le> 12 \<and> 1 \<le> day d \<and> day d \<le> 31"

definition digit :: "nat \<Rightarrow> char" where
  "digit n = char_of (48 + n mod 10)"

fun zero_padded :: "nat \<Rightarrow> nat \<Rightarrow> string" where
  "zero_padded 0 n = []"
| "zero_padded (Suc k) n = zero_padded k (n div 10) @ [digit n]"

definition isoformat :: "date \<Rightarrow> string" where
  "isoformat d =
     zero_padded 4 (year d) @ ''-'' @ zero_padded 2 (month d) @ ''-'' @ zero_padded 2 (day d)"

definition bind_date :: "date option \<Rightarrow> sql_value" where
  "bind_date d = (case d of None \<Rightarrow> NULL | Some d' \<Rightarrow> TEXT (isoformat d'))"

text \<open>
  A column with NUMERIC affinity stores a text as a number when the text is a well-formed
  numeric literal: blanks, a sign, digits with or without a decimal point, an exponent,
  blanks. The ISO text of a date is none, so \<open>Expiry_Date\<close> keeps it as text.
\<close>

definition is_space :: "char \<Rightarrow> bool" where
  "is_space c \<longleftrightarrow> c = CHR '' '' \<or> (9 \<le> (of_char c :: nat) \<and> (of_char c :: nat) \<le> 13)"

definition is_digit :: "char \<Rightarrow> bool" where
  "is_digit c \<longleftrightarrow> 48 \<le> (of_char c :: nat) \<and> (of_char c :: nat) \<le> 57"

definition skip_sign :: "string \<Rightarrow> string" where
  "skip_sign cs =
     (case cs of [] \<Rightarrow> [] | c # r \<Rightarrow> if c = CHR ''+'' \<or> c = CHR ''-'' then r else cs)"

definition exponent :: "string \<Rightarrow> string option" where
  "exponent cs =
     (case cs of
        [] \<Rightarrow> Some []
      | c # r \<Rightarrow>
          if c = CHR ''e'' \<or> c = CHR ''E'' then
            (if takeWhile is_digit (skip_sign r) = [] then None
             else Some (dropWhile is_digit (skip_sign r)))
          else Some cs)"

definition numeric_literal :: "string \<Rightarrow> bool" where
  "numeric_literal t =
     (let a = skip_sign (dropWhile is_space t);
          whole = takeWhile is_digit a;
          b = dropWhile is_digit a;
          point = (b \<noteq> [] \<and> hd b = CHR ''.'');
          fraction = (if point then takeWhile is_digit (tl b) else []);
          c = (if point then dropWhile is_digit (tl b) else b)
      in (whole \<noteq> [] \<or> fraction \<noteq> [])
         \<and> (case exponent c of None \<Rightarrow> False | Some rest \<Rightarrow> dropWhile is_space rest = []))"

subsection \<open>Inserting with AUTOINCREMENT\<close>

fun largest :: "int list \<Rightarrow> int option" where
  "largest [] = None"
| "largest (x # xs) = (case largest xs of None \<Rightarrow> Some x | Some m \<Rightarrow> Some (max x m))"

text \<open>
  The rowid of a new row: one more than the largest rowid in the table (1 for an empty
  table), and at least one more than \<open>sqlite_sequence\<close>. When the largest possible rowid
  was used, the insert fails.
\<close>

definition new_rowid :: "'a table \<Rightarrow> error + int" where
  "new_rowid t =
     (case largest (rowids t) of
        None \<Rightarrow>
          if sqlite_sequence t = MAX_ROWID then Inl OperationalError
          else Inr (max 1 (sqlite_sequence t + 1))
      | Some m \<Rightarrow>
          if MAX_ROWID \<le> m \<or> sqlite_sequence t = MAX_ROWID then Inl OperationalError
          else Inr (max (m + 1) (sqlite_sequence t + 1)))"

definition insert_auto :: "'a \<Rightarrow> 'a table \<Rightarrow> error + 'a table" where
  "insert_auto r t =
     (case new_rowid t of
        Inl e \<Rightarrow> Inl e
      | Inr v \<Rightarrow> Inr \<lparr>rows = rows t @ [(v, r)], sqlite_sequence = v\<rparr>)"

text \<open>
  A foreign key column may be NULL; a value that is not NULL must be the rowid of a row of
  the parent table.
\<close>

definition references :: "int option \<Rightarrow> int list \<Rightarrow> bool" where
  "references v ids = (case v of None \<Rightarrow> False | Some i \<Rightarrow> i \<in> set ids)"

definition foreign_key_ok :: "int option \<Rightarrow> 'a table \<Rightarrow> bool" where
  "foreign_key_ok v parent = (case v of None \<Rightarrow> True | Some i \<Rightarrow> i \<in> set (rowids parent))"

subsection \<open>The CRUD functions\<close>

text \<open>
  Each function takes the store for \<open>conn\<close> and returns what the call returns (\<open>Inr None\<close>
  is Python's \<open>None\<close>, \<open>Inl e\<close> a raised exception) and the store afterwards. A statement that
  fails changes nothing, and \<open>conn.commit()\<close> is not reached.
\<close>

type_synonym 'a outcome = "(error + 'a) \<times> store"

definition add_provider ::
  "string option \<Rightarrow> string option \<Rightarrow> string option \<Rightarrow> string option \<Rightarrow> string option \<Rightarrow>
   store \<Rightarrow> int option outcome" where
  "add_provider name p_type address city contact s =
     (case insert_auto
             \<lparr>p_Name = name, p_Type = p_type, p_Address = address, p_City = city,
              p_Contact = contact\<rparr> (Providers s) of
        Inl e \<Rightarrow> (Inl e, s)
      | Inr t \<Rightarrow> (Inr None, s\<lparr>Providers := t\<rparr>))"

definition add_food_listing ::
  "string option \<Rightarrow> int option \<Rightarrow> date option \<Rightarrow> int option \<Rightarrow> string option \<Rightarrow>
   string option \<Rightarrow> string option \<Rightarrow> string option \<Rightarrow> store \<Rightarrow> int option outcome" where
  "add_food_listing food_name quantity expiry_date provider_id provider_type location
     food_type meal_type s =
     (case bind_int_opt quantity of
        Inl e \<Rightarrow> (Inl e, s)
      | Inr q \<Rightarrow>
     (case bind_int_opt provider_id of
        Inl e \<Rightarrow> (Inl e, s)
      | Inr pid \<Rightarrow>
     (case insert_auto
             \<lparr>Food_Name = food_name, Quantity = q, Expiry_Date = bind_date expiry_date,
              Provider_ID = pid, Provider_Type = provider_type, Location = location,
              Food_Type = food_type, Meal_Type = meal_type\<rparr> (Food_Listings s) of
        Inl e \<Rightarrow> (Inl e, s)
      | Inr t \<Rightarrow>
          if foreign_key_ok pid (Providers s) then (Inr None, s\<lparr>Food_Listings := t\<rparr>)
          else (Inl IntegrityError, s))))"

text \<open>
  \<open>DELETE FROM Food_Listings WHERE ...\<close>: the rows that match go, and with each of them the
  claims that reference it (\<open>ON DELETE CASCADE\<close> of \<open>Claims.Food_ID\<close>).
\<close>

definition delete_food_listings_where :: "(int \<times> food_listing \<Rightarrow> bool) \<Rightarrow> store \<Rightarrow> store" where
  "delete_food_listings_where P s =
     (let gone = map fst (filter P (rows (Food_Listings s)))
      in s\<lparr>Food_Listings := (Food_Listings s)\<lparr>rows := filter (\<lambda>r. \<not> P r) (rows (Food_Listings s))\<rparr>,
            Claims := (Claims s)\<lparr>rows := filter (\<lambda>c. \<not> references (c_Food_ID (snd c)) gone)
                                              (rows (Claims s))\<rparr>\<rparr>)"

definition delete_listing :: "int \<Rightarrow> store \<Rightarrow> int option outcome" where
  "delete_listing food_id s =
     (case bind_int food_id of
        Inl e \<Rightarrow> (Inl e, s)
      | Inr i \<Rightarrow> (Inr None, delete_food_listings_where (\<lambda>r. fst r = i) s))"

text \<open>
  \<open>DELETE FROM Providers WHERE Provider_ID = ?\<close>: with each provider row that goes, the
  listings that reference it go (\<open>ON DELETE CASCADE\<close> of \<open>Food_Listings.Provider_ID\<close>), and
  with them their claims.
\<close>

definition delete_provider :: "int \<Rightarrow> store \<Rightarrow> int option outcome" where
  "delete_provider provider_id s =
     (case bind_int provider_id of
        Inl e \<Rightarrow> (Inl e, s)
      | Inr i \<Rightarrow>
          (let gone = map fst (filter (\<lambda>r. fst r = i) (rows (Providers s)));
               s' = delete_food_listings_where (\<lambda>r. references (Provider_ID (snd r)) gone) s
           in (Inr None,
               s'\<lparr>Providers := (Providers s')\<lparr>rows := filter (\<lambda>r. fst r \<noteq> i) (rows (Providers s'))\<rparr>\<rparr>)))"

subsection \<open>Example data\<close>

definition joes_deli :: provider where
  "joes_deli =
     \<lparr>p_Name = Some ''Joe's Deli'', p_Type = Some ''Restaurant'', p_Address = Some ''1 Main St'',
      p_City = Some ''Springfield'', p_Contact = Some ''555-0100''\<rparr>"

definition green_grocer :: provider where
  "green_grocer =
     \<lparr>p_Name = Some ''Green Grocer'', p_Type = Some ''Grocery Store'',
      p_Address = Some ''7 Elm St'', p_City = Some ''Shelbyville'', p_Contact = Some ''555-0199''\<rparr>"

definition food_bank :: receiver where
  "food_bank =
     \<lparr>r_Name = Some ''Food Bank'', r_Type = Some ''NGO'', r_City = Some ''Springfield'',
      r_Contact = Some ''555-0142''\<rparr>"

definition listing :: "string \<Rightarrow> int \<Rightarrow> string \<Rightarrow> int \<Rightarrow> provider \<Rightarrow> string \<Rightarrow> food_listing" where
  "listing name q expiry pid p meal =
     \<lparr>Food_Name = Some name, Quantity = Some q, Expiry_Date = TEXT expiry, Provider_ID = Some pid,
      Provider_Type = p_Type p, Location = p_City p, Food_Type = Some ''Vegetarian'',
      Meal_Type = Some meal\<rparr>"

definition claim_on :: "int \<Rightarrow> string \<Rightarrow> claim" where
  "claim_on fid st =
     \<lparr>c_Food_ID = Some fid, c_Receiver_ID = Some 1, Status = Some st,
      Timestamp = TEXT ''2024-01-05 10:00:00''\<rparr>"

text \<open>Two providers, one receiver, three listings (two of Joe's Deli) and a claim on each.\<close>

definition example_store :: store where
  "example_store =
     \<lparr>Providers = \<lparr>rows = [(1, joes_deli), (2, green_grocer)], sqlite_sequence = 2\<rparr>,
      Receivers = \<lparr>rows = [(1, food_bank)], sqlite_sequence = 1\<rparr>,
      Food_Listings =
        \<lparr>rows = [(1, listing ''Sandwiches'' 20 ''2024-01-10'' 1 joes_deli ''Lunch''),
                 (2, listing ''Apples'' 5 ''2024-01-08'' 2 green_grocer ''Snacks''),
                 (3, listing ''Soup'' 7 ''2024-01-09'' 1 joes_deli ''Dinner'')],
         sqlite_sequence = 3\<rparr>,
      Claims =
        \<lparr>rows = [(1, claim_on 1 ''Completed''), (2, claim_on 2 ''Pending''),
                 (3, claim_on 3 ''Completed'')],
         sqlite_sequence = 3\<rparr>\<rparr>"

text \<open>
  A store whose \<open>Providers\<close> and \<open>Food_Listings\<close> tables have used the largest rowid, as after
  loading a file that has it.
\<close>

definition exhausted_store :: store where
  "exhausted_store =
     \<lparr>Providers = \<lparr>rows = [(MAX_ROWID, joes_deli)], sqlite_sequence = MAX_ROWID\<rparr>,
      Receivers = empty_table,
      Food_Listings = \<lparr>rows = [], sqlite_sequence = MAX_ROWID\<rparr>,
      Claims = empty_table\<rparr>"

definition jan_10 :: date where
  "jan_10 = \<lparr>year = 2024, month = 1, day = 10\<rparr>"

subsection \<open>Quantities\<close>

text \<open>
  The schema declares \<open>Quantity INTEGER\<close> with no check, and \<open>add_food_listing\<close> passes
  the quantity on as it gets it. The form in \<open>main\<close> is what keeps it positive
  (\<open>st.number_input("Quantity", min_value=1, step=1)\<close>).
\<close>

definition positive_quantities :: "store \<Rightarrow> bool" where
  "positive_quantities s =
     list_all (\<lambda>r. case Quantity (snd r) of None \<Rightarrow> False | Some q \<Rightarrow> 0 < q)
       (rows (Food_Listings s))"

subsection \<open>Viewing the listings\<close>

text \<open>
  \<open>SELECT * FROM Food_Listings ORDER BY Expiry_Date ASC\<close> (the "View All Food Listings"
  tab of \<open>main\<close>). The engine orders the stored values: NULL first, then the numbers by
  value, then the texts bytewise. \<open>value_order\<close> maps a value to a key with that order.
  Rows with equal values come in rowid order.
\<close>

definition value_order :: "sql_value \<Rightarrow> nat \<times> int \<times> string" where
  "value_order v =
     (case v of NULL \<Rightarrow> (0, 0, []) | INTEGER n \<Rightarrow> (1, n, []) | TEXT t \<Rightarrow> (2, 0, t))"

definition all_listings :: "store \<Rightarrow> (int \<times> food_listing) list" where
  "all_listings s = sort_key (\<lambda>r. value_order (Expiry_Date (snd r))) (rows (Food_Listings s))"

text \<open>Calendar order of two dates.\<close>

definition not_after :: "date \<Rightarrow> date \<Rightarrow> bool" where
  "not_after d e \<longleftrightarrow>
     year d < year e
     \<or> (year d = year e \<and> (month d < month e \<or> (month d = month e \<and> day d \<le> day e)))"

text \<open>
  The date a stored value stands for, when the value is the ISO text \<open>YYYY-MM-DD\<close> of a
  date: ten characters, digits but for the two hyphens.
\<close>

definition digits_value :: "string \<Rightarrow> nat" where
  "digits_value cs = foldl (\<lambda>n c. 10 * n + (of_char c - 48)) 0 cs"

definition date_of_iso :: "string \<Rightarrow> date option" where
  "date_of_iso t =
     (if length t = 10 \<and> t ! 4 = CHR ''-'' \<and> t ! 7 = CHR ''-''
         \<and> list_all is_digit (take 4 t @ take 2 (drop 5 t) @ drop 8 t)
      then
        (let d = \<lparr>year = digits_value (take 4 t), month = digits_value (take 2 (drop 5 t)),
                  day = digits_value (drop 8 t)\<rparr>
         in if valid_date d then Some d else None)
      else None)"

definition expiry_of :: "int \<times> food_listing \<Rightarrow> date option" where
  "expiry_of r = (case Expiry_Date (snd r) of TEXT t \<Rightarrow> date_of_iso t | _ \<Rightarrow> None)"

definition has_iso_date :: "int \<times> food_listing \<Rightarrow> bool" where
  "has_iso_date r \<longleftrightarrow> expiry_of r \<noteq> None"

text \<open>
  Two rows are in calendar order when both hold the ISO text of a date and the date of the
  first is not after the date of the second.
\<close>

definition in_calendar_order :: "int \<times> food_listing \<Rightarrow> int \<times> food_listing \<Rightarrow> bool" where
  "in_calendar_order a b \<longleftrightarrow>
     (case (expiry_of a, expiry_of b) of
        (Some d, Some e) \<Rightarrow> not_after d e
      | _ \<Rightarrow> False)"

subsection \<open>The analysis queries\<close>

text \<open>
  \<open>pd.read_sql_query\<close> returns a frame: the list of the result's rows. A query that fails
  raises \<open>DatabaseError\<close>.

  \<open>SUM\<close> adds the values that are not NULL, in the order of the rows. Its result is NULL
  when there is none, also over no rows at all, and the query fails when the running total
  leaves 64 bits.
\<close>

fun sum_step :: "int option \<Rightarrow> int option \<Rightarrow> error + int option" where
  "sum_step acc None = Inr acc"
| "sum_step None (Some v) = Inr (Some v)"
| "sum_step (Some a) (Some v) =
     (if int64 (a + v) then Inr (Some (a + v)) else Inl OperationalError)"

fun sql_sum_from :: "int option \<Rightarrow> int option list \<Rightarrow> error + int option" where
  "sql_sum_from acc [] = Inr acc"
| "sql_sum_from acc (v # vs) =
     (case sum_step acc v of Inl e \<Rightarrow> Inl e | Inr acc' \<Rightarrow> sql_sum_from acc' vs)"

definition sql_sum :: "int option list \<Rightarrow> error + int option" where
  "sql_sum vs = sql_sum_from None vs"

text \<open>Python's \<open>int(x)\<close> of a frame cell: NULL arrives as \<open>None\<close>.\<close>

definition py_int :: "int option \<Rightarrow> error + int" where
  "py_int v = (case v of None \<Rightarrow> Inl TypeError | Some n \<Rightarrow> Inr n)"

text \<open>
  \<open>GROUP BY\<close> a column: one group for each value of the column, NULL included, in the
  order of the values. \<open>ORDER BY ... DESC\<close> then puts the larger aggregate first. SQL leaves
  the order of groups with equal aggregates open; the engine returns them in descending
  group order, the reverse of the ascending sort.
\<close>

definition group_keys :: "'k::linorder list \<Rightarrow> 'k list" where
  "group_keys ks = sort (remdups ks)"

definition order_by_desc :: "('a \<Rightarrow> 'k::linorder) \<Rightarrow> 'a list \<Rightarrow> 'a list" where
  "order_by_desc f xs = rev (sort_key f xs)"

fun collect :: "(error + 'a) list \<Rightarrow> error + 'a list" where
  "collect [] = Inr []"
| "collect (x # xs) =
     (case x of
        Inl e \<Rightarrow> Inl e
      | Inr v \<Rightarrow> (case collect xs of Inl e \<Rightarrow> Inl e | Inr vs \<Rightarrow> Inr (v # vs)))"

text \<open>
  Report 2, \<open>top_provider_type\<close>:
  \<open>SELECT p.Type, SUM(fl.Quantity) AS TotalQuantityDonated FROM Providers p
    JOIN Food_Listings fl ON p.Provider_ID = fl.Provider_ID
    GROUP BY p.Type ORDER BY TotalQuantityDonated DESC LIMIT 1\<close>.
\<close>

definition providers_join_listings :: "store \<Rightarrow> (provider \<times> food_listing) list" where
  "providers_join_listings s =
     concat (map (\<lambda>p. map (\<lambda>fl. (snd p, snd fl))
                          (filter (\<lambda>fl. Provider_ID (snd fl) = Some (fst p)) (rows (Food_Listings s))))
                 (rows (Providers s)))"

definition top_provider_type :: "store \<Rightarrow> error + (string option \<times> int option) list" where
  "top_provider_type s =
     (let joined = providers_join_listings s;
          groups = map (\<lambda>t. case sql_sum (map (\<lambda>r. Quantity (snd r))
                                             (filter (\<lambda>r. p_Type (fst r) = t) joined)) of
                               Inl e \<Rightarrow> Inl e
                             | Inr q \<Rightarrow> Inr (t, q))
                       (group_keys (map (\<lambda>r. p_Type (fst r)) joined))
      in case collect groups of
           Inl e \<Rightarrow> Inl DatabaseError
         | Inr frame \<Rightarrow> Inr (take 1 (order_by_desc snd frame)))"

text \<open>
  What \<open>main\<close> shows for report 2: nothing for an empty frame, else the type and
  \<open>int(...)\<close> of the total of the first row.
\<close>

definition top_contributor_metric :: "store \<Rightarrow> error + (string option \<times> int) option" where
  "top_contributor_metric s =
     (case top_provider_type s of
        Inl e \<Rightarrow> Inl e
      | Inr [] \<Rightarrow> Inr None
      | Inr (row # _) \<Rightarrow>
          (case py_int (snd row) of Inl e \<Rightarrow> Inl e | Inr n \<Rightarrow> Inr (Some (fst row, n))))"

text \<open>
  Report 4, \<open>total_quantity_available\<close>:
  \<open>SELECT SUM(Quantity) AS TotalQuantity FROM Food_Listings\<close>. An aggregate without
  \<open>GROUP BY\<close> has one result row, whatever the table holds.
\<close>

definition total_quantity_available :: "store \<Rightarrow> error + int option list" where
  "total_quantity_available s =
     (case sql_sum (map (\<lambda>r. Quantity (snd r)) (rows (Food_Listings s))) of
        Inl e \<Rightarrow> Inl DatabaseError
      | Inr q \<Rightarrow> Inr [q])"

text \<open>
  What \<open>main\<close> shows for report 4:
  \<open>if not total_quantity_available.empty: st.metric(..., value=f"{int(...['TotalQuantity'][0])}")\<close>.
\<close>

definition total_food_units_metric :: "store \<Rightarrow> error + int option" where
  "total_food_units_metric s =
     (case total_quantity_available s of
        Inl e \<Rightarrow> Inl e
      | Inr [] \<Rightarrow> Inr None
      | Inr (q # _) \<Rightarrow>
          (case py_int q of Inl e \<Rightarrow> Inl e | Inr n \<Rightarrow> Inr (Some n)))"

text \<open>
  Report 5, \<open>city_listings\<close>:
  \<open>SELECT Location, COUNT(Food_ID) AS NumberOfListings FROM Food_Listings
    GROUP BY Location ORDER BY NumberOfListings DESC LIMIT 1\<close>.
\<close>

definition city_listings :: "store \<Rightarrow> (string option \<times> int) list" where
  "city_listings s =
     (let locations = map (\<lambda>r. Location (snd r)) (rows (Food_Listings s))
      in take 1 (order_by_desc snd
           (map (\<lambda>l. (l, int (length (filter (\<lambda>x. x = l) locations)))) (group_keys locations))))"

definition most_active_city_metric :: "store \<Rightarrow> error + (string option \<times> int) option" where
  "most_active_city_metric s =
     (case city_listings s of
        [] \<Rightarrow> Inr None
      | row # _ \<Rightarrow> Inr (Some row))"

text \<open>
  Report 3, \<open>provider_contacts\<close>. The statement is built by an f-string, so the engine gets
  the selected city as part of the statement's text:
  \<open>f"SELECT Name AS ProviderName, Contact, Address FROM Providers WHERE City = '{selected_city}';"\<close>.
\<close>

definition quote :: char where
  "quote = CHR 0x27"

definition provider_contacts_select :: string where
  "provider_contacts_select =
     ''SELECT Name AS ProviderName, Contact, Address FROM Providers WHERE City = ''"

definition provider_contacts_sql :: "string \<Rightarrow> string" where
  "provider_contacts_sql selected_city =
     provider_contacts_select @ [quote] @ selected_city @ [quote] @ '';''"

text \<open>
  How the engine reads a string literal, from behind its opening quote: the literal ends
  at the first quote that is not doubled, and a doubled quote stands for one quote. The
  result is the literal's value and the text that follows it; there is none when the
  text ends inside the literal.
\<close>

fun string_literal :: "string \<Rightarrow> (string \<times> string) option" where
  "string_literal [] = None"
| "string_literal [c] = (if c = quote then Some ([], []) else None)"
| "string_literal (c # c' # cs) =
     (if c = quote then
        (if c' = quote then map_option (\<lambda>(v, rest). (quote # v, rest)) (string_literal cs)
         else Some ([], c' # cs))
      else map_option (\<lambda>(v, rest). (c # v, rest)) (string_literal (c' # cs)))"

text \<open>
  Text after the literal that the engine cannot accept: before anything that could end
  the statement or quote the rest of it (a semicolon, a comment, a quoted or bracketed
  name) it opens a string literal that never ends.
\<close>

definition opens_unfinished_literal :: "string \<Rightarrow> bool" where
  "opens_unfinished_literal rest =
     (case dropWhile (\<lambda>c. c \<noteq> quote) rest of
        [] \<Rightarrow> False
      | _ # body \<Rightarrow>
          string_literal body = None
          \<and> list_all (\<lambda>c. c \<notin> set (CHR 0x22 # CHR 0x60 # '';-/[''))
               (takeWhile (\<lambda>c. c \<noteq> quote) rest))"

text \<open>
  The result of the lookup: the frame of \<open>(ProviderName, Contact, Address)\<close> rows, an
  exception, or, when the text after the literal is more SQL, whatever that statement is
  (the model does not follow it further).
\<close>

datatype lookup =
    Not_Run
  | Contacts "(string option \<times> string option \<times> string option) list"
  | Raises error
  | Other_Statement string

definition contacts_in :: "string \<Rightarrow> store \<Rightarrow> (string option \<times> string option \<times> string option) list" where
  "contacts_in city s =
     map (\<lambda>r. (p_Name (snd r), p_Contact (snd r), p_Address (snd r)))
       (filter (\<lambda>r. p_City (snd r) = Some city) (rows (Providers s)))"

text \<open>
  \<open>pd.read_sql_query\<close> of a statement that starts as the lookup does. A text with a NUL
  character is refused by the sqlite3 module.
\<close>

definition read_provider_contacts :: "string \<Rightarrow> store \<Rightarrow> lookup" where
  "read_provider_contacts sql s =
     (if CHR 0x00 \<in> set sql then Raises DatabaseError
      else
        (case string_literal (drop (length provider_contacts_select + 1) sql) of
           None \<Rightarrow> Raises DatabaseError
         | Some (v, rest) \<Rightarrow>
             if rest = '';'' then Contacts (contacts_in v s)
             else if opens_unfinished_literal rest then Raises DatabaseError
             else Other_Statement rest))"

text \<open>
  The step of \<open>main\<close>: \<open>if selected_city:\<close> skips the lookup for \<open>None\<close> and for the empty
  string.
\<close>

definition provider_contacts :: "string option \<Rightarrow> store \<Rightarrow> lookup" where
  "provider_contacts selected_city s =
     (case selected_city of
        None \<Rightarrow> Not_Run
      | Some city \<Rightarrow>
          if city = [] then Not_Run else read_provider_contacts (provider_contacts_sql city) s)"

definition ofallon_diner :: provider where
  "ofallon_diner =
     \<lparr>p_Name = Some ''Diner'', p_Type = Some ''Restaurant'', p_Address = Some ''9 Pine St'',
      p_City = Some ''O'Fallon'', p_Contact = Some ''555-0177''\<rparr>"

definition nowhere_stall :: provider where
  "nowhere_stall =
     \<lparr>p_Name = Some ''Stall'', p_Type = Some ''Individual'', p_Address = Some [],
      p_City = Some [], p_Contact = Some ''555-0123''\<rparr>"

definition cities_store :: store where
  "cities_store =
     empty_store\<lparr>Providers :=
       \<lparr>rows = [(1, joes_deli), (2, ofallon_diner), (3, nowhere_stall)], sqlite_sequence = 3\<rparr>\<rparr>"

subsection \<open>Setting up the database\<close>

text \<open>
  \<open>sqlite3.connect\<close> opens the database file, creating it when there is none. A new file
  has no tables: it is \<open>None\<close> here; a file the application has set up before has all four.
  \<open>CREATE TABLE IF NOT EXISTS\<close> creates the empty table in the first case and does nothing
  in the second.
\<close>

definition create_tables :: "store option \<Rightarrow> store" where
  "create_tables db = (case db of None \<Rightarrow> empty_store | Some s \<Rightarrow> s)"

text \<open>
  The data directory holds at most one CSV file for each table. What \<open>pd.read_csv\<close> makes
  of a file is a frame of rows, each with the table's columns and, when the file has the id
  column and the cell is not empty, an id; or the file is one that \<open>read_csv\<close> or \<open>to_sql\<close>
  rejects as a whole. A cell is given as the value its column stores for it.
\<close>

datatype 'a csv_file =
    Missing
  | Unreadable
  | Frame "(int option \<times> 'a) list"

record data_dir =
  providers_data :: "provider csv_file"
  receivers_data :: "receiver csv_file"
  food_listings_data :: "food_listing csv_file"
  claims_data :: "claim csv_file"

text \<open>
  \<open>df.to_sql(table_name, conn, if_exists='append', index=False)\<close> inserts the rows of the
  frame one after the other. A row with an id keeps it, unless the table has that id
  already; a row without one is numbered by AUTOINCREMENT. Each row must satisfy the foreign
  keys of its table (\<open>ok\<close>). At the first row that fails, pandas rolls the whole insertion
  back and raises.
\<close>

definition insert_explicit :: "int \<Rightarrow> 'a \<Rightarrow> 'a table \<Rightarrow> error + 'a table" where
  "insert_explicit i r t =
     (if i \<in> set (rowids t) then Inl IntegrityError
      else Inr \<lparr>rows = insort_key fst (i, r) (rows t),
                sqlite_sequence = max (sqlite_sequence t) i\<rparr>)"

definition insert_row :: "int option \<Rightarrow> 'a \<Rightarrow> 'a table \<Rightarrow> error + 'a table" where
  "insert_row i r t = (case i of None \<Rightarrow> insert_auto r t | Some j \<Rightarrow> insert_explicit j r t)"

fun to_sql :: "('a \<Rightarrow> bool) \<Rightarrow> (int option \<times> 'a) list \<Rightarrow> 'a table \<Rightarrow> error + 'a table" where
  "to_sql ok [] t = Inr t"
| "to_sql ok ((i, r) # df) t =
     (case insert_row i r t of
        Inl e \<Rightarrow> Inl e
      | Inr t' \<Rightarrow> if ok r then to_sql ok df t' else Inl IntegrityError)"

text \<open>
  The body of the second loop of \<open>setup_database\<close>, for one table: a table without rows is
  loaded from its file when there is one. An exception of the load is caught and shown with
  \<open>st.error\<close>; the first component of the result lists what is shown.
\<close>

definition load_table :: "('a \<Rightarrow> bool) \<Rightarrow> 'a csv_file \<Rightarrow> 'a table \<Rightarrow> error list \<times> 'a table" where
  "load_table ok csv_file t =
     (if length (rows t) = 0 then
        (case csv_file of
           Missing \<Rightarrow> ([], t)
         | Unreadable \<Rightarrow> ([ParserError], t)
         | Frame df \<Rightarrow> (case to_sql ok df t of Inl e \<Rightarrow> ([e], t) | Inr t' \<Rightarrow> ([], t')))
      else ([], t))"

text \<open>
  \<open>setup_database\<close>: the tables are visited in the order of the dictionary, so a table is
  loaded after the tables its foreign keys point to.
\<close>

definition setup_database :: "data_dir \<Rightarrow> store option \<Rightarrow> error list \<times> store" where
  "setup_database dir db =
     (let s = create_tables db;
          p = load_table (\<lambda>_. True) (providers_data dir) (Providers s);
          r = load_table (\<lambda>_. True) (receivers_data dir) (Receivers s);
          f = load_table (\<lambda>fl. foreign_key_ok (Provider_ID fl) (snd p))
                (food_listings_data dir) (Food_Listings s);
          c = load_table (\<lambda>c. foreign_key_ok (c_Food_ID c) (snd f)
                                 \<and> foreign_key_ok (c_Receiver_ID c) (snd r))
                (claims_data dir) (Claims s)
      in (fst p @ fst r @ fst f @ fst c,
          \<lparr>Providers = snd p, Receivers = snd r, Food_Listings = snd f, Claims = snd c\<rparr>))"

text \<open>
  A data directory: two providers (the second without an id), no file for the receivers,
  a listing of provider 1, and a claim file whose claim names a receiver that does not
  exist.
\<close>

definition example_dir :: data_dir where
  "example_dir =
     \<lparr>providers_data = Frame [(Some 1, joes_deli), (None, green_grocer)],
      receivers_data = Missing,
      food_listings_data = Frame [(Some 7, listing ''Sandwiches'' 20 ''2024-01-10'' 1 joes_deli ''Lunch'')],
      claims_data = Frame [(Some 1, claim_on 7 ''Pending'')]\<rparr>"

text \<open>
  A data directory whose listings file gives the expiry dates as month/day/year, as a
  spreadsheet export does: ham that expires on 25 December 2024, bread that expires on
  5 January 2025.
\<close>

definition christmas_dir :: data_dir where
  "christmas_dir =
     \<lparr>providers_data = Frame [(Some 1, joes_deli)],
      receivers_data = Missing,
      food_listings_data =
        Frame [(Some 1, listing ''Ham'' 4 ''12/25/2024'' 1 joes_deli ''Dinner''),
               (Some 2, listing ''Bread'' 6 ''01/05/2025'' 1 joes_deli ''Lunch'')],
      claims_data = Missing\<rparr>"

text \<open>
  A store in which two provider types have given the same total and two locations have the
  same number of listings.
\<close>

definition tie_store :: store where
  "tie_store =
     \<lparr>Providers =
        \<lparr>rows = [(1, green_grocer),
                 (2, green_grocer\<lparr>p_Name := Some ''Big Market'', p_Type := Some ''Supermarket''\<rparr>)],
         sqlite_sequence = 2\<rparr>,
      Receivers = empty_table,
      Food_Listings =
        \<lparr>rows = [(1, (listing ''Apples'' 5 ''2024-01-08'' 1 green_grocer ''Snacks'')\<lparr>Location := Some ''A''\<rparr>),
                 (2, (listing ''Pears'' 5 ''2024-01-09'' 2 green_grocer ''Snacks'')\<lparr>Location := Some ''B''\<rparr>)],
         sqlite_sequence = 2\<rparr>,
      Claims = empty_table\<rparr>"

section \<open>Properties\<close>

subsection \<open>Auxiliary facts\<close>

lemma largest_None: "largest xs = None \<longleftrightarrow> xs = []"
  by (induction xs) (auto split: option.splits)

lemma largest_upper: "largest xs = Some m \<Longrightarrow> x \<in> set xs \<Longrightarrow> x \<le> m"
  by (induction xs arbitrary: m) (auto split: option.splits simp: largest_None)

lemma isoformat_jan_10: "isoformat jan_10 = ''2024-01-10''"
  by code_simp

lemma int64_1: "int64 1"
  by (simp add: int64_def MAX_ROWID_def)

lemma bind_int_ok: "int64 i \<Longrightarrow> bind_int i = Inr i"
  by (simp add: bind_int_def)

lemma references_set: "references v ids \<longleftrightarrow> (\<exists>i \<in> set ids. v = Some i)"
  by (cases v) (auto simp: references_def)

subsection \<open>Deleting a provider\<close>

text \<open>
  C1. For a provider present in the store, \<open>delete_provider\<close> of its id returns normally
  and removes exactly: the provider row, every listing whose \<open>Provider_ID\<close> is that id, and
  every claim whose \<open>Food_ID\<close> is the id of one of those listings. What remains of each
  table is what a filter keeps, so no other row goes; the receivers are untouched.
\<close>

theorem delete_provider_cascade:
  assumes present: "(i, p) \<in> set (rows (Providers s))" and fits: "int64 i"
  shows "fst (delete_provider i s) = Inr None
    \<and> rows (Providers (snd (delete_provider i s))) = filter (\<lambda>r. fst r \<noteq> i) (rows (Providers s))
    \<and> rows (Food_Listings (snd (delete_provider i s)))
        = filter (\<lambda>f. Provider_ID (snd f) \<noteq> Some i) (rows (Food_Listings s))
    \<and> rows (Claims (snd (delete_provider i s)))
        = filter (\<lambda>c. \<not> (\<exists>f \<in> set (rows (Food_Listings s)).
                          Provider_ID (snd f) = Some i \<and> c_Food_ID (snd c) = Some (fst f)))
            (rows (Claims s))
    \<and> Receivers (snd (delete_provider i s)) = Receivers s"
proof -
  let ?gone = "map fst (filter (\<lambda>r. fst r = i) (rows (Providers s)))"
  have gone: "set ?gone = {i}"
    using present by force
  have ref: "\<And>v. references v ?gone \<longleftrightarrow> v = Some i"
    unfolding references_set gone by auto
  have keep: "(\<lambda>f::int \<times> food_listing. \<not> references (Provider_ID (snd f)) ?gone)
      = (\<lambda>f. Provider_ID (snd f) \<noteq> Some i)"
    by (simp add: ref)
  have claims: "\<And>c. references (c_Food_ID (snd c))
        (map fst (filter (\<lambda>r. references (Provider_ID (snd r)) ?gone) (rows (Food_Listings s))))
      \<longleftrightarrow> (\<exists>f \<in> set (rows (Food_Listings s)).
             Provider_ID (snd f) = Some i \<and> c_Food_ID (snd c) = Some (fst f))"
    by (simp only: ref) (force simp: references_set)
  show ?thesis
    by (simp add: delete_provider_def bind_int_ok [OF fits] Let_def
        delete_food_listings_where_def keep claims)
qed

theorem delete_provider_cascade_witness:
  "(1, joes_deli) \<in> set (rows (Providers example_store)) \<and> int64 1
   \<and> fst (delete_provider 1 example_store) = Inr None
   \<and> rowids (Providers (snd (delete_provider 1 example_store))) = [2]
   \<and> rowids (Food_Listings (snd (delete_provider 1 example_store))) = [2]
   \<and> rowids (Claims (snd (delete_provider 1 example_store))) = [2]
   \<and> rowids (Receivers (snd (delete_provider 1 example_store))) = [1]"
proof -
  have present: "(1, joes_deli) \<in> set (rows (Providers example_store))"
    by (simp add: example_store_def)
  show ?thesis
    using present int64_1 delete_provider_cascade [OF present int64_1]
    by (simp add: rowids_def example_store_def listing_def claim_on_def joes_deli_def
        green_grocer_def)
qed

subsection \<open>Rowids and bound parameters\<close>

lemma bind_int_opt_eq:
  "bind_int_opt v = (if \<exists>n. v = Some n \<and> \<not> int64 n then Inl OverflowError else Inr v)"
  by (auto simp: bind_int_opt_def bind_int_def split: option.splits)

lemma new_rowid_Inl: "new_rowid t = Inl e \<Longrightarrow> e = OperationalError"
  by (auto simp: new_rowid_def split: option.splits if_splits)

lemma largest_mem: "largest xs = Some m \<Longrightarrow> m \<in> set xs"
  by (induction xs arbitrary: m) (auto split: option.splits simp: max_def)

lemma new_rowid_fresh:
  assumes "new_rowid t = Inr v"
  shows "sqlite_sequence t < v" and "\<forall>i \<in> set (rowids t). i < v"
proof -
  show "sqlite_sequence t < v"
    using assms by (auto simp: new_rowid_def split: option.splits if_splits)
  show "\<forall>i \<in> set (rowids t). i < v"
  proof
    fix i assume i: "i \<in> set (rowids t)"
    then obtain m where m: "largest (rowids t) = Some m"
      by (cases "largest (rowids t)") (auto simp: largest_None)
    then have "i \<le> m" using i by (rule largest_upper)
    with assms m show "i < v"
      by (auto simp: new_rowid_def split: if_splits)
  qed
qed

lemma new_rowid_ok:
  assumes "sqlite_sequence t < MAX_ROWID" and "\<forall>i \<in> set (rowids t). i < MAX_ROWID"
  shows "\<exists>v. new_rowid t = Inr v"
proof (cases "largest (rowids t)")
  case None
  with assms show ?thesis by (simp add: new_rowid_def)
next
  case (Some m)
  then have "m \<in> set (rowids t)" by (rule largest_mem)
  with assms Some show ?thesis by (auto simp: new_rowid_def)
qed

subsection \<open>Deleting a listing\<close>

text \<open>
  C10. \<open>delete_listing\<close> leaves the \<open>Providers\<close> and \<open>Receivers\<close> tables as they are, and
  the sequence entries of the other two; of \<open>Food_Listings\<close> every row with another id
  stays, in place, and of \<open>Claims\<close> every row whose \<open>Food_ID\<close> is not the deleted id.
\<close>

theorem delete_listing_frame:
  "Providers (snd (delete_listing food_id s)) = Providers s
   \<and> Receivers (snd (delete_listing food_id s)) = Receivers s
   \<and> sqlite_sequence (Food_Listings (snd (delete_listing food_id s))) = sqlite_sequence (Food_Listings s)
   \<and> sqlite_sequence (Claims (snd (delete_listing food_id s))) = sqlite_sequence (Claims s)
   \<and> filter (\<lambda>f. fst f \<noteq> food_id) (rows (Food_Listings (snd (delete_listing food_id s))))
       = filter (\<lambda>f. fst f \<noteq> food_id) (rows (Food_Listings s))
   \<and> filter (\<lambda>c. c_Food_ID (snd c) \<noteq> Some food_id) (rows (Claims (snd (delete_listing food_id s))))
       = filter (\<lambda>c. c_Food_ID (snd c) \<noteq> Some food_id) (rows (Claims s))"
proof (cases "int64 food_id")
  case True
  have "\<And>v. references v (map fst (filter (\<lambda>r. fst r = food_id) (rows (Food_Listings s))))
      \<Longrightarrow> v = Some food_id"
    by (auto simp: references_set)
  then have eq: "\<And>c. (c_Food_ID (snd c) \<noteq> Some food_id
      \<and> \<not> references (c_Food_ID (snd c)) (map fst (filter (\<lambda>r. fst r = food_id) (rows (Food_Listings s)))))
      \<longleftrightarrow> c_Food_ID (snd c) \<noteq> Some food_id"
    by blast
  show ?thesis
    by (simp add: delete_listing_def bind_int_ok [OF True] delete_food_listings_where_def Let_def
        conj_commute eq)
next
  case False
  then show ?thesis
    by (simp add: delete_listing_def bind_int_def)
qed

theorem delete_listing_frame_witness:
  "rowids (Providers (snd (delete_listing 1 example_store))) = [1, 2]
   \<and> rowids (Receivers (snd (delete_listing 1 example_store))) = [1]
   \<and> rowids (Food_Listings (snd (delete_listing 1 example_store))) = [2, 3]
   \<and> rowids (Claims (snd (delete_listing 1 example_store))) = [2, 3]"
  using delete_listing_frame [of 1 example_store]
  by (simp add: delete_listing_def bind_int_ok [OF int64_1] delete_food_listings_where_def
      rowids_def example_store_def references_def claim_on_def)

subsection \<open>Adding a listing for a provider that does not exist\<close>

text \<open>
  C2, as amended. With a \<open>Provider_ID\<close> that is not NULL and is not the id of a provider,
  \<open>add_food_listing\<close> raises and the store is as before. The exception is the foreign key's
  \<open>IntegrityError\<close>, unless an integer argument does not fit 64 bits (\<open>OverflowError\<close>,
  raised when the parameters are bound) or the table has run out of rowids
  (\<open>OperationalError\<close>).
\<close>

theorem add_food_listing_unknown_provider:
  assumes absent: "i \<notin> set (rowids (Providers s))"
  shows "add_food_listing food_name quantity expiry_date (Some i) provider_type location
           food_type meal_type s
         = (Inl (if (\<exists>n. quantity = Some n \<and> \<not> int64 n) \<or> \<not> int64 i then OverflowError
                 else if new_rowid (Food_Listings s) = Inl OperationalError then OperationalError
                 else IntegrityError), s)"
proof (cases "new_rowid (Food_Listings s)")
  case (Inl e)
  then have "e = OperationalError" by (rule new_rowid_Inl)
  with Inl show ?thesis
    by (simp add: add_food_listing_def bind_int_opt_eq insert_auto_def)
next
  case (Inr v)
  with absent show ?thesis
    by (simp add: add_food_listing_def bind_int_opt_eq insert_auto_def foreign_key_ok_def)
qed

theorem add_food_listing_unknown_provider_witness:
  "999 \<notin> set (rowids (Providers example_store))
   \<and> add_food_listing (Some ''Bread'') (Some 5) (Some jan_10) (Some 999) (Some ''Restaurant'')
        (Some ''Springfield'') (Some ''Vegan'') (Some ''Lunch'') example_store
      = (Inl IntegrityError, example_store)"
proof -
  have absent: "999 \<notin> set (rowids (Providers example_store))"
    by (simp add: rowids_def example_store_def)
  have free: "new_rowid (Food_Listings example_store) = Inr 4"
    by (simp add: new_rowid_def rowids_def example_store_def MAX_ROWID_def)
  show ?thesis
    using absent add_food_listing_unknown_provider [OF absent, of "Some ''Bread''" "Some 5"
        "Some jan_10" "Some ''Restaurant''" "Some ''Springfield''" "Some ''Vegan''" "Some ''Lunch''"]
    by (simp add: free int64_def MAX_ROWID_def)
qed

text \<open>
  C2 as stated fails for \<open>provider_id = None\<close>, which is what \<open>main\<close> passes when no
  provider exists (\<open>provider_dict.get\<close> of the empty selection): NULL satisfies the foreign
  key, and the row is stored without an owner. And the exception for an id that no provider
  has is not the foreign key's when the id does not fit 64 bits, or when the table has no
  rowid left.
\<close>

theorem add_food_listing_null_provider_counterexample:
  "rowids (Providers empty_store) = []
   \<and> fst (add_food_listing (Some ''Bread'') (Some 5) (Some jan_10) None (Some []) (Some [])
           (Some ''Vegan'') (Some ''Lunch'') empty_store) = Inr None
   \<and> rows (Food_Listings (snd (add_food_listing (Some ''Bread'') (Some 5) (Some jan_10) None
           (Some []) (Some []) (Some ''Vegan'') (Some ''Lunch'') empty_store)))
      = [(1, \<lparr>Food_Name = Some ''Bread'', Quantity = Some 5, Expiry_Date = TEXT ''2024-01-10'',
              Provider_ID = None, Provider_Type = Some [], Location = Some [],
              Food_Type = Some ''Vegan'', Meal_Type = Some ''Lunch''\<rparr>)]
   \<and> add_food_listing (Some ''Bread'') (Some 5) (Some jan_10) (Some 9223372036854775808)
         (Some ''Restaurant'') (Some ''Springfield'') (Some ''Vegan'') (Some ''Lunch'') example_store
      = (Inl OverflowError, example_store)
   \<and> add_food_listing (Some ''Bread'') (Some 5) (Some jan_10) (Some 5)
         (Some ''Restaurant'') (Some ''Springfield'') (Some ''Vegan'') (Some ''Lunch'') exhausted_store
      = (Inl OperationalError, exhausted_store)"
proof -
  have null: "add_food_listing (Some ''Bread'') (Some 5) (Some jan_10) None (Some []) (Some [])
           (Some ''Vegan'') (Some ''Lunch'') empty_store
      = (Inr None,
         empty_store\<lparr>Food_Listings :=
           \<lparr>rows = [(1, \<lparr>Food_Name = Some ''Bread'', Quantity = Some 5,
                           Expiry_Date = TEXT ''2024-01-10'', Provider_ID = None,
                           Provider_Type = Some [], Location = Some [],
                           Food_Type = Some ''Vegan'', Meal_Type = Some ''Lunch''\<rparr>)],
            sqlite_sequence = 1\<rparr>\<rparr>)"
    by (simp add: add_food_listing_def bind_int_opt_eq insert_auto_def new_rowid_def rowids_def
        empty_store_def empty_table_def foreign_key_ok_def MAX_ROWID_def int64_def bind_date_def
        isoformat_jan_10)
  have large: "add_food_listing (Some ''Bread'') (Some 5) (Some jan_10) (Some 9223372036854775808)
         (Some ''Restaurant'') (Some ''Springfield'') (Some ''Vegan'') (Some ''Lunch'') example_store
      = (Inl OverflowError, example_store)"
    by (simp add: add_food_listing_def bind_int_opt_eq MAX_ROWID_def int64_def)
  have full: "add_food_listing (Some ''Bread'') (Some 5) (Some jan_10) (Some 5)
         (Some ''Restaurant'') (Some ''Springfield'') (Some ''Vegan'') (Some ''Lunch'') exhausted_store
      = (Inl OperationalError, exhausted_store)"
    by (simp add: add_food_listing_def bind_int_opt_eq insert_auto_def new_rowid_def rowids_def
        exhausted_store_def MAX_ROWID_def int64_def)
  show ?thesis
    unfolding null large full by (simp add: rowids_def empty_store_def empty_table_def)
qed

text \<open>
  With \<open>provider_id = None\<close> the listing is inserted whenever the quantity can be bound and
  the table has a rowid left.
\<close>

lemma add_food_listing_null_provider:
  assumes "new_rowid (Food_Listings s) = Inr v" and "\<not> (\<exists>n. quantity = Some n \<and> \<not> int64 n)"
  shows "add_food_listing food_name quantity expiry_date None provider_type location
           food_type meal_type s
         = (Inr None,
            s\<lparr>Food_Listings :=
                \<lparr>rows = rows (Food_Listings s) @
                   [(v, \<lparr>Food_Name = food_name, Quantity = quantity,
                         Expiry_Date = bind_date expiry_date, Provider_ID = None,
                         Provider_Type = provider_type, Location = location,
                         Food_Type = food_type, Meal_Type = meal_type\<rparr>)],
                 sqlite_sequence = v\<rparr>\<rparr>)"
  using assms
  by (simp add: add_food_listing_def bind_int_opt_eq insert_auto_def foreign_key_ok_def)

subsection \<open>Adding a provider\<close>

text \<open>
  C7, as amended. While the table has rowids left, \<open>add_provider\<close> appends one row holding
  the five values under a new id, larger than every id in the table and than the table's
  sequence entry, and returns \<open>None\<close>.
\<close>

theorem add_provider_inserts:
  assumes "sqlite_sequence (Providers s) < MAX_ROWID"
      and "\<forall>i \<in> set (rowids (Providers s)). i < MAX_ROWID"
  shows "\<exists>v. add_provider name p_type address city contact s
           = (Inr None,
              s\<lparr>Providers :=
                  \<lparr>rows = rows (Providers s) @
                     [(v, \<lparr>p_Name = name, p_Type = p_type, p_Address = address, p_City = city,
                           p_Contact = contact\<rparr>)],
                   sqlite_sequence = v\<rparr>\<rparr>)
         \<and> sqlite_sequence (Providers s) < v \<and> (\<forall>i \<in> set (rowids (Providers s)). i < v)"
proof -
  obtain v where v: "new_rowid (Providers s) = Inr v"
    using new_rowid_ok [OF assms] by blast
  have "add_provider name p_type address city contact s
      = (Inr None,
         s\<lparr>Providers :=
             \<lparr>rows = rows (Providers s) @
                [(v, \<lparr>p_Name = name, p_Type = p_type, p_Address = address, p_City = city,
                      p_Contact = contact\<rparr>)],
              sqlite_sequence = v\<rparr>\<rparr>)"
    by (simp add: add_provider_def insert_auto_def v)
  with new_rowid_fresh [OF v] show ?thesis by blast
qed

theorem add_provider_inserts_witness:
  "sqlite_sequence (Providers example_store) < MAX_ROWID
   \<and> rowids (Providers example_store) = [1, 2]
   \<and> fst (add_provider (Some ''Corner Cafe'') (Some ''Restaurant'') (Some ''3 Oak St'')
        (Some ''Springfield'') (Some ''555-0111'') example_store) = Inr None
   \<and> rowids (Providers (snd (add_provider (Some ''Corner Cafe'') (Some ''Restaurant'')
        (Some ''3 Oak St'') (Some ''Springfield'') (Some ''555-0111'') example_store))) = [1, 2, 3]"
proof -
  have a: "sqlite_sequence (Providers example_store) < MAX_ROWID"
    by (simp add: example_store_def MAX_ROWID_def)
  have b: "\<forall>i \<in> set (rowids (Providers example_store)). i < MAX_ROWID"
    by (simp add: rowids_def example_store_def MAX_ROWID_def)
  have c: "rowids (Providers example_store) = [1, 2]"
    by (simp add: rowids_def example_store_def)
  show ?thesis
    using a c add_provider_inserts [OF a b, of "Some ''Corner Cafe''" "Some ''Restaurant''"
        "Some ''3 Oak St''" "Some ''Springfield''" "Some ''555-0111''"]
    by (simp add: add_provider_def insert_auto_def new_rowid_def rowids_def example_store_def
        MAX_ROWID_def)
qed

text \<open>
  C7 as stated fails: the function has no \<open>return\<close>, so the caller gets \<open>None\<close>, not the
  id 1 of the row just inserted. And on a table that has used the largest rowid nothing is
  inserted: the call raises.
\<close>

theorem add_provider_returns_none_counterexample:
  "fst (add_provider (Some ''Joe's Deli'') (Some ''Restaurant'') (Some ''1 Main St'')
        (Some ''Springfield'') (Some ''555-0100'') empty_store) \<noteq> Inr (Some 1)
   \<and> rows (Providers (snd (add_provider (Some ''Joe's Deli'') (Some ''Restaurant'')
        (Some ''1 Main St'') (Some ''Springfield'') (Some ''555-0100'') empty_store)))
      = [(1, joes_deli)]
   \<and> add_provider (Some ''Corner Cafe'') (Some ''Restaurant'') (Some ''3 Oak St'')
        (Some ''Springfield'') (Some ''555-0111'') exhausted_store
      = (Inl OperationalError, exhausted_store)"
  by (simp add: add_provider_def insert_auto_def new_rowid_def rowids_def empty_store_def
      empty_table_def exhausted_store_def MAX_ROWID_def joes_deli_def)

subsection \<open>The quantity of a new listing\<close>

text \<open>
  C8, as amended. \<open>add_food_listing\<close> does not check the quantity: a call that succeeds
  appends one listing whose \<open>Quantity\<close> is the value given, so all stored quantities are
  positive afterwards exactly when they were before and the value given is a positive
  integer.
\<close>

theorem add_food_listing_stores_quantity:
  assumes "add_food_listing food_name quantity expiry_date provider_id provider_type location
             food_type meal_type s = (Inr None, s')"
  shows "map (\<lambda>r. Quantity (snd r)) (rows (Food_Listings s'))
           = map (\<lambda>r. Quantity (snd r)) (rows (Food_Listings s)) @ [quantity]
         \<and> (positive_quantities s' \<longleftrightarrow>
              positive_quantities s \<and> (\<exists>q. quantity = Some q \<and> 0 < q))"
proof -
  from assms obtain v where
    s': "s' = s\<lparr>Food_Listings :=
                 \<lparr>rows = rows (Food_Listings s) @
                    [(v, \<lparr>Food_Name = food_name, Quantity = quantity,
                          Expiry_Date = bind_date expiry_date, Provider_ID = provider_id,
                          Provider_Type = provider_type, Location = location,
                          Food_Type = food_type, Meal_Type = meal_type\<rparr>)],
                  sqlite_sequence = v\<rparr>\<rparr>"
    by (auto simp: add_food_listing_def bind_int_opt_eq insert_auto_def
        split: if_splits sum.splits)
  show ?thesis
    by (cases quantity) (auto simp: s' positive_quantities_def)
qed

theorem add_food_listing_stores_quantity_witness:
  "add_food_listing (Some ''Bread'') (Some 5) (Some jan_10) (Some 2) (Some ''Grocery Store'')
      (Some ''Shelbyville'') (Some ''Vegan'') (Some ''Lunch'') example_store
     = (Inr None,
        example_store\<lparr>Food_Listings :=
          \<lparr>rows = rows (Food_Listings example_store) @
             [(4, \<lparr>Food_Name = Some ''Bread'', Quantity = Some 5, Expiry_Date = TEXT ''2024-01-10'',
                   Provider_ID = Some 2, Provider_Type = Some ''Grocery Store'',
                   Location = Some ''Shelbyville'', Food_Type = Some ''Vegan'',
                   Meal_Type = Some ''Lunch''\<rparr>)],
           sqlite_sequence = 4\<rparr>\<rparr>)
   \<and> map (\<lambda>r. Quantity (snd r)) (rows (Food_Listings (snd (add_food_listing (Some ''Bread'')
        (Some 5) (Some jan_10) (Some 2) (Some ''Grocery Store'') (Some ''Shelbyville'')
        (Some ''Vegan'') (Some ''Lunch'') example_store))))
     = [Some 20, Some 5, Some 7, Some 5]
   \<and> positive_quantities (snd (add_food_listing (Some ''Bread'')
        (Some 5) (Some jan_10) (Some 2) (Some ''Grocery Store'') (Some ''Shelbyville'')
        (Some ''Vegan'') (Some ''Lunch'') example_store))"
proof -
  have run: "add_food_listing (Some ''Bread'') (Some 5) (Some jan_10) (Some 2) (Some ''Grocery Store'')
      (Some ''Shelbyville'') (Some ''Vegan'') (Some ''Lunch'') example_store
     = (Inr None,
        example_store\<lparr>Food_Listings :=
          \<lparr>rows = rows (Food_Listings example_store) @
             [(4, \<lparr>Food_Name = Some ''Bread'', Quantity = Some 5, Expiry_Date = TEXT ''2024-01-10'',
                   Provider_ID = Some 2, Provider_Type = Some ''Grocery Store'',
                   Location = Some ''Shelbyville'', Food_Type = Some ''Vegan'',
                   Meal_Type = Some ''Lunch''\<rparr>)],
           sqlite_sequence = 4\<rparr>\<rparr>)"
    by (simp add: add_food_listing_def bind_int_opt_eq insert_auto_def new_rowid_def rowids_def
        example_store_def foreign_key_ok_def MAX_ROWID_def int64_def bind_date_def
        isoformat_jan_10)
  have before: "positive_quantities example_store"
    by (simp add: positive_quantities_def example_store_def listing_def)
  show ?thesis
    unfolding run
    using add_food_listing_stores_quantity [OF run] before
    by (simp add: positive_quantities_def example_store_def listing_def)
qed

text \<open>
  C8 as stated fails: quantity 0 for an existing provider is stored.
\<close>

theorem add_food_listing_zero_quantity_counterexample:
  "fst (add_food_listing (Some ''Crumbs'') (Some 0) (Some jan_10) (Some 1) (Some ''Restaurant'')
         (Some ''Springfield'') (Some ''Vegan'') (Some ''Snacks'') example_store) = Inr None
   \<and> map (\<lambda>r. Quantity (snd r)) (rows (Food_Listings (snd (add_food_listing (Some ''Crumbs'')
         (Some 0) (Some jan_10) (Some 1) (Some ''Restaurant'') (Some ''Springfield'')
         (Some ''Vegan'') (Some ''Snacks'') example_store))))
      = [Some 20, Some 5, Some 7, Some 0]"
  by (simp add: add_food_listing_def bind_int_opt_eq insert_auto_def new_rowid_def rowids_def
      example_store_def foreign_key_ok_def MAX_ROWID_def int64_def listing_def)

subsection \<open>The order of ISO dates\<close>

lemma lexord_same_length:
  "length xs = length ys \<Longrightarrow> \<forall>x. (x, x) \<notin> r \<Longrightarrow>
   (xs @ v, ys @ z) \<in> lexord r \<longleftrightarrow> (xs, ys) \<in> lexord r \<or> (xs = ys \<and> (v, z) \<in> lexord r)"
  by (induction xs ys rule: list_induct2) auto

lemma less_same_length:
  fixes xs ys :: "'a::linorder list"
  assumes "length xs = length ys"
  shows "xs @ v < ys @ z \<longleftrightarrow> xs < ys \<or> (xs = ys \<and> v < z)"
  unfolding list_less_def using assms by (rule lexord_same_length) simp

lemma le_same_length:
  fixes xs ys :: "'a::linorder list"
  assumes "length xs = length ys"
  shows "xs @ v \<le> ys @ z \<longleftrightarrow> xs < ys \<or> (xs = ys \<and> v \<le> z)"
  using assms by (auto simp: list_le_def less_same_length)

lemma of_char_digit: "(of_char (digit n) :: nat) = 48 + n mod 10"
  by (simp add: digit_def)

lemma digit_less: "digit m < digit n \<longleftrightarrow> m mod 10 < n mod 10"
  by (simp add: less_char_def of_char_digit)

lemma digit_eq: "digit m = digit n \<longleftrightarrow> m mod 10 = n mod 10"
proof
  assume "digit m = digit n"
  then have "(of_char (digit m) :: nat) = of_char (digit n)" by simp
  then show "m mod 10 = n mod 10" by (simp add: of_char_digit)
qed (simp add: digit_def)

lemma length_zero_padded: "length (zero_padded k n) = k"
  by (induction k arbitrary: n) auto

lemma base10_eq: "c < 10 \<Longrightarrow> d < 10 \<Longrightarrow> 10 * a + c = 10 * b + d \<longleftrightarrow> a = b \<and> c = (d::nat)"
  by arith

lemma base10_less:
  "c < 10 \<Longrightarrow> d < 10 \<Longrightarrow> 10 * a + c < 10 * b + d \<longleftrightarrow> a < b \<or> (a = b \<and> c < (d::nat))"
  by arith

lemma zero_padded_eq: "zero_padded k m = zero_padded k n \<longleftrightarrow> m mod 10 ^ k = n mod 10 ^ k"
proof (induction k arbitrary: m n)
  case 0
  show ?case by simp
next
  case (Suc k)
  have split: "\<And>a::nat. a mod 10 ^ Suc k = 10 * (a div 10 mod 10 ^ k) + a mod 10"
    by (simp add: mod_mult2_eq)
  have "zero_padded (Suc k) m = zero_padded (Suc k) n
      \<longleftrightarrow> m div 10 mod 10 ^ k = n div 10 mod 10 ^ k \<and> m mod 10 = n mod 10"
    by (simp add: Suc.IH digit_eq)
  also have "\<dots> \<longleftrightarrow> m mod 10 ^ Suc k = n mod 10 ^ Suc k"
    unfolding split by (simp add: base10_eq)
  finally show ?case .
qed

lemma zero_padded_less: "zero_padded k m < zero_padded k n \<longleftrightarrow> m mod 10 ^ k < n mod 10 ^ k"
proof (induction k arbitrary: m n)
  case 0
  show ?case by simp
next
  case (Suc k)
  have split: "\<And>a::nat. a mod 10 ^ Suc k = 10 * (a div 10 mod 10 ^ k) + a mod 10"
    by (simp add: mod_mult2_eq)
  have "zero_padded (Suc k) m < zero_padded (Suc k) n
      \<longleftrightarrow> m div 10 mod 10 ^ k < n div 10 mod 10 ^ k
        \<or> (m div 10 mod 10 ^ k = n div 10 mod 10 ^ k \<and> m mod 10 < n mod 10)"
    by (simp add: less_same_length length_zero_padded Suc.IH zero_padded_eq digit_less)
  also have "\<dots> \<longleftrightarrow> m mod 10 ^ Suc k < n mod 10 ^ Suc k"
    unfolding split by (simp add: base10_less)
  finally show ?case .
qed

text \<open>The bytewise order of two ISO texts is the calendar order of their dates.\<close>

lemma isoformat_le:
  assumes "valid_date d" and "valid_date e"
  shows "isoformat d \<le> isoformat e \<longleftrightarrow> not_after d e"
proof -
  have y: "year d mod 10 ^ 4 = year d" "year e mod 10 ^ 4 = year e"
    using assms by (simp_all add: valid_date_def)
  have m: "month d mod 10 ^ 2 = month d" "month e mod 10 ^ 2 = month e"
    using assms by (simp_all add: valid_date_def)
  have dd: "day d mod 10 ^ 2 = day d" "day e mod 10 ^ 2 = day e"
    using assms by (simp_all add: valid_date_def)
  have "isoformat d \<le> isoformat e \<longleftrightarrow>
      zero_padded 4 (year d) < zero_padded 4 (year e)
      \<or> (zero_padded 4 (year d) = zero_padded 4 (year e)
         \<and> (zero_padded 2 (month d) < zero_padded 2 (month e)
            \<or> (zero_padded 2 (month d) = zero_padded 2 (month e)
               \<and> (zero_padded 2 (day d) < zero_padded 2 (day e)
                  \<or> zero_padded 2 (day d) = zero_padded 2 (day e)))))"
    unfolding isoformat_def
    by (simp add: le_same_length length_zero_padded) (simp add: list_le_def)
  also have "\<dots> \<longleftrightarrow> not_after d e"
    unfolding zero_padded_less zero_padded_eq y m dd not_after_def by auto
  finally show ?thesis .
qed

lemma is_digit_digit: "is_digit (digit n)"
  by (simp add: is_digit_def of_char_digit)

lemma zero_padded_digits: "list_all is_digit (zero_padded k n)"
  by (induction k arbitrary: n) (simp_all add: is_digit_digit)

lemma digits_value_snoc: "digits_value (cs @ [c]) = 10 * digits_value cs + (of_char c - 48)"
  by (simp add: digits_value_def)

lemma digits_value_zero_padded: "digits_value (zero_padded k n) = n mod 10 ^ k"
proof (induction k arbitrary: n)
  case 0
  show ?case by (simp add: digits_value_def)
next
  case (Suc k)
  show ?case
    by (simp add: digits_value_snoc Suc.IH of_char_digit mod_mult2_eq)
qed

lemma is_digit_value:
  assumes "is_digit c"
  obtains v where "(of_char c :: nat) = 48 + v" and "v < 10"
proof
  show "(of_char c :: nat) = 48 + (of_char c - 48)" and "(of_char c :: nat) - 48 < 10"
    using assms unfolding is_digit_def by linarith+
qed

lemma digit_of_char:
  assumes "is_digit c"
  shows "digit (10 * n + (of_char c - 48)) = c"
proof -
  from assms obtain v where v: "(of_char c :: nat) = 48 + v" "v < 10"
    by (rule is_digit_value)
  then have "digit (10 * n + (of_char c - 48)) = char_of (of_char c :: nat)"
    by (simp add: digit_def)
  then show ?thesis by simp
qed

lemma zero_padded_digits_value:
  "list_all is_digit cs \<Longrightarrow> zero_padded (length cs) (digits_value cs) = cs"
proof (induction cs rule: rev_induct)
  case Nil
  show ?case by simp
next
  case (snoc c cs)
  then have c: "is_digit c" and IH: "zero_padded (length cs) (digits_value cs) = cs"
    by simp_all
  from c obtain v where "(of_char c :: nat) = 48 + v" "v < 10"
    by (rule is_digit_value)
  then have "(10 * digits_value cs + (of_char c - 48)) div 10 = digits_value cs"
    by simp
  with IH digit_of_char [OF c] show ?case
    by (simp add: digits_value_snoc)
qed

lemma iso_parts:
  assumes "length a = 4" and "length b = 2" and "length c = 2"
  shows "length (a @ h # b @ k # c) = 10" and "(a @ h # b @ k # c) ! 4 = h"
    and "(a @ h # b @ k # c) ! 7 = k" and "take 4 (a @ h # b @ k # c) = a"
    and "take 2 (drop 5 (a @ h # b @ k # c)) = b" and "drop 8 (a @ h # b @ k # c) = c"
  using assms by (simp_all add: nth_append nth_Cons')

lemma iso_split:
  assumes "length t = 10"
  shows "t = take 4 t @ t ! 4 # take 2 (drop 5 t) @ t ! 7 # drop 8 t"
proof -
  have "t = take 4 t @ drop 4 t" by simp
  also have "drop 4 t = t ! 4 # drop 5 t"
    using assms Cons_nth_drop_Suc [of 4 t] by simp
  also have "drop 5 t = take 2 (drop 5 t) @ drop 7 t"
    using append_take_drop_id [of 2 "drop 5 t"] by simp
  also have "drop 7 t = t ! 7 # drop 8 t"
    using assms Cons_nth_drop_Suc [of 7 t] by simp
  finally show ?thesis .
qed

text \<open>Reading the ISO text of a date gives the date back, and only ISO texts are read.\<close>

lemma date_of_iso_isoformat:
  assumes "valid_date d"
  shows "date_of_iso (isoformat d) = Some d"
proof -
  have y: "year d mod 10 ^ 4 = year d" and m: "month d mod 10 ^ 2 = month d"
    and dd: "day d mod 10 ^ 2 = day d"
    using assms by (simp_all add: valid_date_def)
  have parts: "\<lparr>year = digits_value (zero_padded 4 (year d)),
                month = digits_value (zero_padded 2 (month d)),
                day = digits_value (zero_padded 2 (day d))\<rparr> = d"
    using y m dd by (simp add: digits_value_zero_padded)
  show ?thesis
    unfolding date_of_iso_def isoformat_def append_Cons append_Nil
    by (simp add: iso_parts length_zero_padded zero_padded_digits parts assms Let_def)
qed

lemma date_of_iso_Some:
  assumes "date_of_iso t = Some d"
  shows "valid_date d \<and> isoformat d = t"
proof -
  from assms have len: "length t = 10" and h: "t ! 4 = CHR ''-''" "t ! 7 = CHR ''-''"
    and digits: "list_all is_digit (take 4 t)" "list_all is_digit (take 2 (drop 5 t))"
      "list_all is_digit (drop 8 t)"
    and d: "d = \<lparr>year = digits_value (take 4 t), month = digits_value (take 2 (drop 5 t)),
                 day = digits_value (drop 8 t)\<rparr>"
    and v: "valid_date d"
    by (auto simp: date_of_iso_def Let_def split: if_splits)
  have "zero_padded 4 (year d) = take 4 t"
    using zero_padded_digits_value [OF digits(1)] len by (simp add: d)
  moreover have "zero_padded 2 (month d) = take 2 (drop 5 t)"
    using zero_padded_digits_value [OF digits(2)] len by (simp add: d)
  moreover have "zero_padded 2 (day d) = drop 8 t"
    using zero_padded_digits_value [OF digits(3)] len by (simp add: d)
  ultimately have "isoformat d = take 4 t @ t ! 4 # take 2 (drop 5 t) @ t ! 7 # drop 8 t"
    by (simp add: isoformat_def h)
  with iso_split [OF len] v show ?thesis by simp
qed

text \<open>The ISO text of a date is not a numeric literal: the column keeps it as text.\<close>

lemma not_numeric_literal:
  assumes "ds \<noteq> []" and "list_all is_digit ds"
  shows "\<not> numeric_literal (ds @ CHR ''-'' # rest)"
proof -
  from assms obtain c cs where ds: "ds = c # cs" and c: "is_digit c"
    by (cases ds) auto
  from c have plain: "\<not> is_space c" "c \<noteq> CHR ''+''" "c \<noteq> CHR ''-''"
    by (auto simp: is_digit_def is_space_def)
  have hyphen: "\<not> is_digit CHR ''-''" "\<not> is_space CHR ''-''"
    by (simp_all add: is_digit_def is_space_def)
  have start: "skip_sign (dropWhile is_space (ds @ CHR ''-'' # rest)) = ds @ CHR ''-'' # rest"
    using plain by (simp add: ds skip_sign_def)
  have whole: "dropWhile is_digit (ds @ CHR ''-'' # rest) = CHR ''-'' # rest"
    using assms(2) hyphen by (simp add: dropWhile_append list_all_iff)
  show ?thesis
    using hyphen by (simp add: numeric_literal_def Let_def start whole exponent_def)
qed

lemma isoformat_not_numeric: "\<not> numeric_literal (isoformat d)"
proof -
  have "zero_padded 4 (year d) \<noteq> []"
    using length_zero_padded [of 4 "year d"] by auto
  then show ?thesis
    unfolding isoformat_def append_Cons append_Nil
    by (rule not_numeric_literal) (rule zero_padded_digits)
qed

lemma value_order_calendar:
  assumes a: "has_iso_date a" and b: "has_iso_date b"
    and le: "value_order (Expiry_Date (snd a)) \<le> value_order (Expiry_Date (snd b))"
  shows "in_calendar_order a b"
proof -
  from a obtain t d where ta: "Expiry_Date (snd a) = TEXT t" and da: "date_of_iso t = Some d"
    by (auto simp: has_iso_date_def expiry_of_def split: sql_value.splits)
  from b obtain u e where tb: "Expiry_Date (snd b) = TEXT u" and db: "date_of_iso u = Some e"
    by (auto simp: has_iso_date_def expiry_of_def split: sql_value.splits)
  from date_of_iso_Some [OF da] date_of_iso_Some [OF db]
  have v: "valid_date d" "valid_date e" and iso: "isoformat d = t" "isoformat e = u"
    by simp_all
  from le have "t \<le> u"
    by (simp add: ta tb value_order_def)
  with v iso have "not_after d e"
    by (simp add: isoformat_le [symmetric])
  then show ?thesis
    by (simp add: in_calendar_order_def expiry_of_def ta tb da db)
qed

text \<open>A listing whose expiry date was bound from a date holds that date.\<close>

lemma expiry_of_bound:
  "valid_date d \<Longrightarrow> Expiry_Date (snd r) = bind_date (Some d) \<Longrightarrow> expiry_of r = Some d"
  by (simp add: expiry_of_def bind_date_def date_of_iso_isoformat)

lemma example_store_iso: "list_all has_iso_date (rows (Food_Listings example_store))"
  by code_simp

lemma example_store_listings: "map fst (all_listings example_store) = [2, 3, 1]"
  by code_simp

lemma christmas_load:
  "snd (setup_database christmas_dir None)
     = \<lparr>Providers = \<lparr>rows = [(1, joes_deli)], sqlite_sequence = 1\<rparr>,
        Receivers = empty_table,
        Food_Listings =
          \<lparr>rows = [(1, listing ''Ham'' 4 ''12/25/2024'' 1 joes_deli ''Dinner''),
                   (2, listing ''Bread'' 6 ''01/05/2025'' 1 joes_deli ''Lunch'')],
           sqlite_sequence = 2\<rparr>,
        Claims = empty_table\<rparr>"
  by (simp add: setup_database_def create_tables_def load_table_def christmas_dir_def
      empty_store_def empty_table_def insert_row_def insert_explicit_def rowids_def
      foreign_key_ok_def listing_def)

subsection \<open>Viewing the listings by expiry date\<close>

text \<open>
  C3, as amended. For every store, the listings view returns the rows of \<open>Food_Listings\<close>,
  each as often as the table holds it, in the engine's order of the stored
  \<open>Expiry_Date\<close> values: NULL first, then numbers, then texts bytewise. When every listing
  holds the ISO text of a date, as a listing added through the form does, that is calendar
  order: the nearest expiry comes first.
\<close>

theorem all_listings_sorted:
  "mset (all_listings s) = mset (rows (Food_Listings s))
   \<and> sorted (map (\<lambda>r. value_order (Expiry_Date (snd r))) (all_listings s))
   \<and> (list_all has_iso_date (rows (Food_Listings s)) \<longrightarrow>
        sorted_wrt in_calendar_order (all_listings s))"
proof -
  have perm: "mset (all_listings s) = mset (rows (Food_Listings s))"
    by (simp add: all_listings_def)
  have ordered: "sorted (map (\<lambda>r. value_order (Expiry_Date (snd r))) (all_listings s))"
    by (simp add: all_listings_def)
  have calendar: "sorted_wrt in_calendar_order (all_listings s)"
    if iso: "list_all has_iso_date (rows (Food_Listings s))"
  proof -
    have same: "set (all_listings s) = set (rows (Food_Listings s))"
      by (simp add: all_listings_def)
    have "sorted_wrt (\<lambda>a b. value_order (Expiry_Date (snd a)) \<le> value_order (Expiry_Date (snd b)))
        (all_listings s)"
      using ordered by (simp add: sorted_map)
    then show ?thesis
    proof (rule sorted_wrt_mono_rel [rotated])
      fix a b
      assume "a \<in> set (all_listings s)" and "b \<in> set (all_listings s)"
        and "value_order (Expiry_Date (snd a)) \<le> value_order (Expiry_Date (snd b))"
      with iso same show "in_calendar_order a b"
        by (auto simp: list_all_iff intro: value_order_calendar)
    qed
  qed
  from perm ordered calendar show ?thesis by blast
qed

theorem all_listings_sorted_witness:
  "list_all has_iso_date (rows (Food_Listings example_store))
   \<and> map fst (rows (Food_Listings example_store)) = [1, 2, 3]
   \<and> map fst (all_listings example_store) = [2, 3, 1]
   \<and> sorted_wrt in_calendar_order (all_listings example_store)"
  using all_listings_sorted [of example_store] example_store_iso example_store_listings
  by (simp add: example_store_def)

text \<open>
  C3 as stated fails on a store loaded from a file that writes its dates as month/day/year:
  the texts are ordered as texts, and the bread that expires on 5 January 2025 is shown
  before the ham that expires on 25 December 2024.
\<close>

theorem all_listings_text_order_counterexample:
  "map (\<lambda>r. (Food_Name (snd r), Expiry_Date (snd r)))
       (rows (Food_Listings (snd (setup_database christmas_dir None))))
     = [(Some ''Ham'', TEXT ''12/25/2024''), (Some ''Bread'', TEXT ''01/05/2025'')]
   \<and> map (\<lambda>r. (Food_Name (snd r), Expiry_Date (snd r)))
       (all_listings (snd (setup_database christmas_dir None)))
     = [(Some ''Bread'', TEXT ''01/05/2025''), (Some ''Ham'', TEXT ''12/25/2024'')]
   \<and> \<not> sorted_wrt in_calendar_order (all_listings (snd (setup_database christmas_dir None)))"
proof -
  have listed: "all_listings (snd (setup_database christmas_dir None))
      = [(2, listing ''Bread'' 6 ''01/05/2025'' 1 joes_deli ''Lunch''),
         (1, listing ''Ham'' 4 ''12/25/2024'' 1 joes_deli ''Dinner'')]"
    unfolding christmas_load by (simp add: all_listings_def value_order_def listing_def)
  have no_date: "expiry_of (i, listing name q ''12/25/2024'' pid p meal) = None"
      "expiry_of (i, listing name q ''01/05/2025'' pid p meal) = None" for i name q pid p meal
    by (simp_all add: expiry_of_def listing_def date_of_iso_def)
  have rows: "map (\<lambda>r. (Food_Name (snd r), Expiry_Date (snd r)))
       (rows (Food_Listings (snd (setup_database christmas_dir None))))
     = [(Some ''Ham'', TEXT ''12/25/2024''), (Some ''Bread'', TEXT ''01/05/2025'')]"
    unfolding christmas_load by (simp add: listing_def)
  have shown: "map (\<lambda>r. (Food_Name (snd r), Expiry_Date (snd r)))
       (all_listings (snd (setup_database christmas_dir None)))
     = [(Some ''Bread'', TEXT ''01/05/2025''), (Some ''Ham'', TEXT ''12/25/2024'')]"
    unfolding listed by (simp add: listing_def)
  have "\<not> sorted_wrt in_calendar_order (all_listings (snd (setup_database christmas_dir None)))"
    unfolding listed by (simp add: in_calendar_order_def no_date)
  with rows shown show ?thesis by simp
qed

subsection \<open>Report 4: the total quantity\<close>

lemma sql_sum_from_nonneg:
  "0 \<le> a \<Longrightarrow> \<forall>q \<in> set qs. 0 \<le> q \<Longrightarrow> a + sum_list qs \<le> MAX_ROWID \<Longrightarrow>
   sql_sum_from (Some a) (map Some qs) = Inr (Some (a + sum_list qs))"
proof (induction qs arbitrary: a)
  case Nil
  show ?case by simp
next
  case (Cons q qs)
  have "0 \<le> sum_list qs"
    using Cons.prems(2) by (simp add: sum_list_nonneg)
  with Cons.prems have fits: "int64 (a + q)"
    by (simp add: int64_def MAX_ROWID_def)
  have "sql_sum_from (Some (a + q)) (map Some qs) = Inr (Some (a + q + sum_list qs))"
    using Cons.prems by (intro Cons.IH) (simp_all add: add.assoc)
  with fits show ?case by (simp add: add.assoc)
qed

text \<open>
  For a table with at least one row, whose quantities are integers that are not negative
  and add up within 64 bits, report 4 shows their sum.
\<close>

lemma total_food_units_metric_sum:
  assumes "qs \<noteq> []" and "map (\<lambda>r. Quantity (snd r)) (rows (Food_Listings s)) = map Some qs"
    and "\<forall>q \<in> set qs. 0 \<le> q" and "sum_list qs \<le> MAX_ROWID"
  shows "total_food_units_metric s = Inr (Some (sum_list qs))"
proof -
  from assms(1) obtain q qs' where qs: "qs = q # qs'" by (cases qs) auto
  have "sql_sum (map Some qs) = sql_sum_from (Some q) (map Some qs')"
    by (simp add: sql_sum_def qs)
  also have "\<dots> = Inr (Some (q + sum_list qs'))"
    using assms(3,4) by (intro sql_sum_from_nonneg) (simp_all add: qs)
  finally show ?thesis
    by (simp add: total_food_units_metric_def total_quantity_available_def assms(2) py_int_def qs)
qed

text \<open>
  C4. Report 4 is to show the sum of \<open>Quantity\<close> over the listings, and 0 for an empty
  table. On the empty table the query's one row holds NULL, not 0: the guard
  \<open>if not total_quantity_available.empty\<close> lets it through, and \<open>int(None)\<close> raises.
\<close>

theorem total_quantity_empty_table:
  "total_quantity_available empty_store = Inr [None]
   \<and> total_food_units_metric empty_store = Inl TypeError"
  by (simp add: total_food_units_metric_def total_quantity_available_def sql_sum_def py_int_def
      empty_store_def empty_table_def)

subsection \<open>The reports on an empty store\<close>

text \<open>
  C5. Every report is to complete on empty tables. Reports 2 and 5 do, showing nothing:
  their frames are empty and their guards hold them back. Report 4 raises, as above.
\<close>

theorem reports_on_empty_store:
  "top_contributor_metric empty_store = Inr None
   \<and> most_active_city_metric empty_store = Inr None
   \<and> total_food_units_metric empty_store = Inl TypeError"
  by (simp add: top_contributor_metric_def top_provider_type_def providers_join_listings_def
      group_keys_def order_by_desc_def most_active_city_metric_def city_listings_def
      total_food_units_metric_def total_quantity_available_def sql_sum_def py_int_def
      empty_store_def empty_table_def)

subsection \<open>Groups with equal aggregates\<close>

text \<open>
  Of two groups with the same aggregate, reports 2 and 5 show the one that is later in
  group order.
\<close>

lemma reports_on_ties:
  "top_provider_type tie_store = Inr [(Some ''Supermarket'', Some 5)]
   \<and> city_listings tie_store = [(Some ''B'', 1)]"
  by code_simp

subsection \<open>Report 3: provider contacts by city\<close>

lemma string_literal_plain:
  "quote \<notin> set city \<Longrightarrow> c \<noteq> quote \<Longrightarrow>
   string_literal (city @ quote # c # rest) = Some (city, c # rest)"
  by (induction city rule: string_literal.induct) auto

lemma provider_contacts_sql_literal:
  "drop (Suc (length provider_contacts_select)) (provider_contacts_sql city) = city @ quote # '';''"
  by (simp add: provider_contacts_sql_def)

lemma provider_contacts_sql_nul:
  "CHR 0x00 \<in> set (provider_contacts_sql city) \<longleftrightarrow> CHR 0x00 \<in> set city"
  by (auto simp: provider_contacts_sql_def provider_contacts_select_def quote_def)

text \<open>
  C9, as amended. For a city that is not the empty string and has neither a quote nor a
  NUL character, the lookup returns the name, contact and address of exactly the providers
  whose \<open>City\<close> is that string, in table order. For the empty string, and without a
  selection, no lookup is run.
\<close>

theorem provider_contacts_exact_match:
  assumes "city \<noteq> []" and "quote \<notin> set city" and "CHR 0x00 \<notin> set city"
  shows "provider_contacts (Some city) s = Contacts (contacts_in city s)
         \<and> provider_contacts (Some []) s = Not_Run \<and> provider_contacts None s = Not_Run"
proof -
  have "CHR '';'' \<noteq> quote"
    by (simp add: quote_def)
  with assms(2) have "string_literal (city @ quote # '';'') = Some (city, '';'')"
    by (rule string_literal_plain)
  with assms(1,3) show ?thesis
    by (simp add: provider_contacts_def read_provider_contacts_def provider_contacts_sql_literal
        provider_contacts_sql_nul)
qed

theorem provider_contacts_exact_match_witness:
  "''Springfield'' \<noteq> [] \<and> quote \<notin> set ''Springfield'' \<and> CHR 0x00 \<notin> set ''Springfield''
   \<and> provider_contacts (Some ''Springfield'') cities_store
       = Contacts [(Some ''Joe's Deli'', Some ''555-0100'', Some ''1 Main St'')]"
proof -
  have a: "''Springfield'' \<noteq> []" and b: "quote \<notin> set ''Springfield''"
    and c: "CHR 0x00 \<notin> set ''Springfield''"
    by (simp_all add: quote_def)
  show ?thesis
    using a b c provider_contacts_exact_match [OF a b c, of cities_store]
    by (simp add: contacts_in_def cities_store_def joes_deli_def ofallon_diner_def
        nowhere_stall_def)
qed

text \<open>
  C9 as stated fails for the empty string, which \<open>if selected_city:\<close> skips although a
  provider has it as its city, and for a city with a quote character, which ends the
  literal early: the statement for \<open>O'Fallon\<close> is rejected. So is a statement with a NUL
  character.
\<close>

theorem provider_contacts_counterexample:
  "contacts_in [] cities_store = [(Some ''Stall'', Some ''555-0123'', Some [])]
   \<and> provider_contacts (Some []) cities_store = Not_Run
   \<and> contacts_in ''O'Fallon'' cities_store = [(Some ''Diner'', Some ''555-0177'', Some ''9 Pine St'')]
   \<and> provider_contacts (Some ''O'Fallon'') cities_store = Raises DatabaseError
   \<and> provider_contacts (Some [CHR ''X'', CHR 0x00]) cities_store = Raises DatabaseError"
proof -
  have empty: "contacts_in [] cities_store = [(Some ''Stall'', Some ''555-0123'', Some [])]"
    by (simp add: contacts_in_def cities_store_def joes_deli_def ofallon_diner_def
        nowhere_stall_def)
  have quoted: "contacts_in ''O'Fallon'' cities_store
      = [(Some ''Diner'', Some ''555-0177'', Some ''9 Pine St'')]"
    by (simp add: contacts_in_def cities_store_def joes_deli_def ofallon_diner_def
        nowhere_stall_def)
  have run: "provider_contacts (Some ''O'Fallon'') cities_store = Raises DatabaseError"
    by (simp add: provider_contacts_def read_provider_contacts_def provider_contacts_sql_literal
        provider_contacts_sql_nul opens_unfinished_literal_def quote_def)
  have nul: "provider_contacts (Some [CHR ''X'', CHR 0x00]) cities_store = Raises DatabaseError"
    by (simp add: provider_contacts_def read_provider_contacts_def provider_contacts_sql_nul)
  show ?thesis
    using empty quoted run nul by (simp add: provider_contacts_def)
qed

subsection \<open>Setting up twice\<close>

lemma insert_row_length:
  "insert_row i r t = Inr t' \<Longrightarrow> length (rows t') = Suc (length (rows t))"
  by (auto simp: insert_row_def insert_auto_def insert_explicit_def
      split: option.splits sum.splits if_splits)

lemma to_sql_length:
  "to_sql ok df t = Inr t' \<Longrightarrow> length (rows t') = length (rows t) + length df"
proof (induction df arbitrary: t)
  case Nil
  then show ?case by simp
next
  case (Cons x df)
  obtain i r where x: "x = (i, r)" by (cases x)
  from Cons.prems obtain t1 where t1: "insert_row i r t = Inr t1" and rest: "to_sql ok df t1 = Inr t'"
    by (auto simp: x split: sum.splits if_splits)
  from Cons.IH [OF rest] insert_row_length [OF t1] show ?case by simp
qed

lemma load_table_idem:
  "load_table ok csv_file (snd (load_table ok csv_file t)) = load_table ok csv_file t"
proof (cases "length (rows t) = 0")
  case False
  then show ?thesis by (simp add: load_table_def)
next
  case True
  show ?thesis
  proof (cases csv_file)
    case Missing
    with True show ?thesis by (simp add: load_table_def)
  next
    case Unreadable
    with True show ?thesis by (simp add: load_table_def)
  next
    case (Frame df)
    show ?thesis
    proof (cases "to_sql ok df t")
      case (Inl e)
      with True Frame show ?thesis by (simp add: load_table_def)
    next
      case (Inr t')
      show ?thesis
      proof (cases df)
        case Nil
        with True Frame show ?thesis by (simp add: load_table_def)
      next
        case (Cons x df')
        with to_sql_length [OF Inr] have "length (rows t') \<noteq> 0" by simp
        with True Frame Inr show ?thesis by (simp add: load_table_def)
      qed
    qed
  qed
qed

lemma load_table_idem_fst:
  "fst (load_table ok csv_file (snd (load_table ok csv_file t))) = fst (load_table ok csv_file t)"
  by (simp add: load_table_idem)

lemma load_table_idem_snd:
  "snd (load_table ok csv_file (snd (load_table ok csv_file t))) = snd (load_table ok csv_file t)"
  by (simp add: load_table_idem)

lemma load_table_keeps:
  "rows t \<noteq> [] \<Longrightarrow> load_table ok csv_file t = ([], t)"
  by (simp add: load_table_def)

text \<open>
  C6. With the data directory unchanged, \<open>setup_database\<close> on the database a first call
  has left returns what the first call returned: the same store, so no row is added a
  second time, and no exception, only the messages of the loads that failed before and fail
  again. On a database that exists, a table that holds rows is left exactly as it is.
\<close>

theorem setup_database_idempotent:
  "setup_database dir (Some (snd (setup_database dir db))) = setup_database dir db
   \<and> (rows (Providers s) \<noteq> [] \<longrightarrow> Providers (snd (setup_database dir (Some s))) = Providers s)
   \<and> (rows (Receivers s) \<noteq> [] \<longrightarrow> Receivers (snd (setup_database dir (Some s))) = Receivers s)
   \<and> (rows (Food_Listings s) \<noteq> [] \<longrightarrow>
        Food_Listings (snd (setup_database dir (Some s))) = Food_Listings s)
   \<and> (rows (Claims s) \<noteq> [] \<longrightarrow> Claims (snd (setup_database dir (Some s))) = Claims s)"
proof -
  have twice: "setup_database dir (Some (snd (setup_database dir db))) = setup_database dir db"
    by (simp add: setup_database_def Let_def create_tables_def load_table_idem_fst
        load_table_idem_snd)
  have kept: "\<And>ok csv_file t. rows t \<noteq> [] \<Longrightarrow> snd (load_table ok csv_file t) = t"
    by (simp add: load_table_keeps)
  have keeps:
    "(rows (Providers s) \<noteq> [] \<longrightarrow> Providers (snd (setup_database dir (Some s))) = Providers s)
     \<and> (rows (Receivers s) \<noteq> [] \<longrightarrow> Receivers (snd (setup_database dir (Some s))) = Receivers s)
     \<and> (rows (Food_Listings s) \<noteq> [] \<longrightarrow>
          Food_Listings (snd (setup_database dir (Some s))) = Food_Listings s)
     \<and> (rows (Claims s) \<noteq> [] \<longrightarrow> Claims (snd (setup_database dir (Some s))) = Claims s)"
    by (simp add: setup_database_def Let_def create_tables_def kept)
  from twice keeps show ?thesis by (rule conjI)
qed

theorem setup_database_idempotent_witness:
  "setup_database example_dir None
     = ([IntegrityError],
        \<lparr>Providers = \<lparr>rows = [(1, joes_deli), (2, green_grocer)], sqlite_sequence = 2\<rparr>,
         Receivers = empty_table,
         Food_Listings =
           \<lparr>rows = [(7, listing ''Sandwiches'' 20 ''2024-01-10'' 1 joes_deli ''Lunch'')],
            sqlite_sequence = 7\<rparr>,
         Claims = empty_table\<rparr>)
   \<and> setup_database example_dir (Some (snd (setup_database example_dir None)))
       = setup_database example_dir None
   \<and> rows (Providers example_store) \<noteq> [] \<and> rows (Receivers example_store) \<noteq> []
   \<and> rows (Food_Listings example_store) \<noteq> [] \<and> rows (Claims example_store) \<noteq> []
   \<and> setup_database example_dir (Some example_store) = ([], example_store)"
proof -
  have first: "setup_database example_dir None
     = ([IntegrityError],
        \<lparr>Providers = \<lparr>rows = [(1, joes_deli), (2, green_grocer)], sqlite_sequence = 2\<rparr>,
         Receivers = empty_table,
         Food_Listings =
           \<lparr>rows = [(7, listing ''Sandwiches'' 20 ''2024-01-10'' 1 joes_deli ''Lunch'')],
            sqlite_sequence = 7\<rparr>,
         Claims = empty_table\<rparr>)"
    by (simp add: setup_database_def create_tables_def load_table_def example_dir_def
        empty_store_def empty_table_def insert_row_def insert_explicit_def insert_auto_def
        new_rowid_def rowids_def foreign_key_ok_def MAX_ROWID_def listing_def claim_on_def)
  have full: "rows (Providers example_store) \<noteq> [] \<and> rows (Receivers example_store) \<noteq> []
      \<and> rows (Food_Listings example_store) \<noteq> [] \<and> rows (Claims example_store) \<noteq> []"
    by (simp add: example_store_def)
  have kept: "setup_database example_dir (Some example_store) = ([], example_store)"
    using full setup_database_idempotent [of example_dir None example_store]
    by (simp add: setup_database_def create_tables_def load_table_def)
  show ?thesis
    using first full kept setup_database_idempotent [of example_dir None example_store]
    by simp
qed

end
